theory Spec2Isabelle
  imports Main "HOL-Library.Sublist"
begin

section \<open>Errors\<close>

text \<open>
  The package declares three sentinel errors with \<^verbatim>\<open>errors.New\<close>; they are compared
  by identity (\<^verbatim>\<open>errors.Is\<close>), so each one is a constructor of its own. An error
  handed back by a collaborator (the tracing SDK, the gRPC credentials loader) is
  \<open>External\<close> with its message. \<open>Errorf pre e post\<close> is the value of
  \<^verbatim>\<open>fmt.Errorf(pre + "%w" + post, e)\<close>: a new error that wraps \<open>e\<close>.
\<close>

datatype error =
    ErrUnspecifiedTracesProtocol
  | ErrNonSupportedTracesProtocol
  | ErrUnspecifiedPropagators
  | External string
  | Errorf string error string

fun Error :: "error \<Rightarrow> string" where
  "Error ErrUnspecifiedTracesProtocol = ''unspecified opentelemetry traces protocol''"
| "Error ErrNonSupportedTracesProtocol = ''non supported opentelemetry traces protocol''"
| "Error ErrUnspecifiedPropagators = ''unspecified opentelemtry propagators''"
| "Error (External msg) = msg"
| "Error (Errorf pre e post) = pre @ Error e @ post"

text \<open>\<^verbatim>\<open>errors.Is(err, target)\<close>: \<open>err\<close> or an error it wraps is \<open>target\<close>.\<close>

fun errors_Is :: "error \<Rightarrow> error \<Rightarrow> bool" where
  "errors_Is (Errorf pre e post) target =
     (Errorf pre e post = target \<or> errors_Is e target)"
| "errors_Is err target = (err = target)"

section \<open>The tracer provider cache (tracerproviderscache.go)\<close>

text \<open>
  A \<^verbatim>\<open>*sdktrace.TracerProvider\<close> is a pointer to an object that
  \<^verbatim>\<open>sdktrace.NewTracerProvider(opts...)\<close> allocates. The model keeps the objects in
  \<open>heap\<close>, a list of the option lists they were built from; a pointer is the index of
  its object, so every allocation returns a pointer that no earlier allocation returned.

  An exporter is the value \<^verbatim>\<open>otlptracegrpc.New\<close> returned for a list of options, and
  a resource is its list of attributes. Transport credentials are the ones loaded from a
  certificate file or the ones \<^verbatim>\<open>credentials.NewTLS\<close> makes of an empty
  \<^verbatim>\<open>tls.Config\<close>.
\<close>

datatype TransportCredentials =
    ClientTLSFromFile string
  | NewTLS

datatype otlptracegrpcOption =
    WithInsecure
  | WithTLSCredentials TransportCredentials
  | WithEndpoint string

datatype exporter = Exporter "otlptracegrpcOption list"

type_synonym resource = "(string \<times> string) list"

datatype TracerProviderOption =
    WithBatcher exporter
  | WithResource resource

type_synonym TracerProvider = nat

text \<open>
  The struct's two maps. The mutex \<^verbatim>\<open>mu\<close> is held for the whole of both methods, so a
  method is one atomic step on the maps and the lock itself is not a field of the model.
  The counters are Go \<^verbatim>\<open>int\<close>s; they are modelled as unbounded integers: a counter
  grows by one for each handler that is provisioned, far below the range where a machine
  integer wraps.
\<close>

record tracerProviderCache =
  tracerProviders :: "string \<rightharpoonup> TracerProvider"
  tracerProvidersCounter :: "string \<rightharpoonup> int"
  heap :: "TracerProviderOption list list"

text \<open>\<^verbatim>\<open>defaultTracerProviderCache\<close>: both maps made empty, nothing allocated yet.\<close>

definition defaultTracerProviderCache :: tracerProviderCache where
  "defaultTracerProviderCache =
     \<lparr>tracerProviders = Map.empty, tracerProvidersCounter = Map.empty, heap = []\<rparr>"

text \<open>Reading \<^verbatim>\<open>t.tracerProvidersCounter[key]\<close>: a key that is not in a Go map reads as 0.\<close>

definition counterOf :: "tracerProviderCache \<Rightarrow> string \<Rightarrow> int" where
  "counterOf t key = (case tracerProvidersCounter t key of None \<Rightarrow> 0 | Some n \<Rightarrow> n)"

text \<open>
  \<^verbatim>\<open>getTracerProvider\<close>: the counter is incremented first, in every case; an existing
  entry is returned as it is; otherwise a provider is allocated and stored.
\<close>

definition getTracerProvider ::
  "string \<Rightarrow> TracerProviderOption list \<Rightarrow> tracerProviderCache
     \<Rightarrow> TracerProvider \<times> tracerProviderCache" where
  "getTracerProvider key opts t =
     (let t1 = t\<lparr>tracerProvidersCounter :=
                   (tracerProvidersCounter t)(key \<mapsto> counterOf t key + 1)\<rparr>
      in case tracerProviders t1 key of
           Some val \<Rightarrow> (val, t1)
         | None \<Rightarrow>
             (let p = length (heap t1)
              in (p, t1\<lparr>tracerProviders := (tracerProviders t1)(key \<mapsto> p),
                       heap := heap t1 @ [opts]\<rparr>)))"

text \<open>
  What \<^verbatim>\<open>cleanupTracerProvider\<close> does to the outside: the calls it makes on the
  provider and the line it logs.
\<close>

datatype event =
    ForceFlush TracerProvider
  | LogError string
  | Shutdown TracerProvider

text \<open>
  \<^verbatim>\<open>cleanupTracerProvider\<close>. The results of \<^verbatim>\<open>ForceFlush\<close> and
  \<^verbatim>\<open>Shutdown\<close> are decided by the SDK and the network, so they are arguments:
  \<open>flushErr\<close> and \<open>shutdownErr\<close> are what the two calls return if they are made
  (\<open>None\<close> for \<^verbatim>\<open>nil\<close>). The logger is the one \<^verbatim>\<open>Provision\<close> stored and is not
  \<^verbatim>\<open>nil\<close>. The result is the returned error, the events in order, and the cache.

  The \<^verbatim>\<open>return\<close> on a \<^verbatim>\<open>Shutdown\<close> error leaves the function before the two
  \<^verbatim>\<open>delete\<close>s.
\<close>

definition deleteKey :: "string \<Rightarrow> tracerProviderCache \<Rightarrow> tracerProviderCache" where
  "deleteKey key t =
     t\<lparr>tracerProviders := (tracerProviders t)(key := None),
       tracerProvidersCounter := (tracerProvidersCounter t)(key := None)\<rparr>"

definition cleanupTracerProvider ::
  "string \<Rightarrow> error option \<Rightarrow> error option \<Rightarrow> tracerProviderCache
     \<Rightarrow> error option \<times> event list \<times> tracerProviderCache" where
  "cleanupTracerProvider key flushErr shutdownErr t =
     (let t1 = (if counterOf t key > 0
                then t\<lparr>tracerProvidersCounter :=
                         (tracerProvidersCounter t)(key \<mapsto> counterOf t key - 1)\<rparr>
                else t)
      in if counterOf t1 key = 0 then
           (case tracerProviders t1 key of
              Some tracerProvider \<Rightarrow>
                (let flushed =
                       ForceFlush tracerProvider #
                       (case flushErr of
                          Some err \<Rightarrow> [LogError (''forceFlush error: '' @ Error err)]
                        | None \<Rightarrow> [])
                 in case shutdownErr of
                      Some err \<Rightarrow>
                        (Some (Errorf ''tracerProviderCache shutdown error: '' err []),
                         flushed @ [Shutdown tracerProvider], t1)
                    | None \<Rightarrow>
                        (None, flushed @ [Shutdown tracerProvider], deleteKey key t1))
            | None \<Rightarrow> (None, [], deleteKey key t1))
         else (None, [], t1))"

text \<open>
  \<^verbatim>\<open>openTelemetryWrapper.cleanup\<close> passes the wrapper's key to the cache, and
  \<^verbatim>\<open>OpenTelemetry.Cleanup\<close> wraps the error it gets back once more.
\<close>

definition OpenTelemetry_Cleanup ::
  "string \<Rightarrow> error option \<Rightarrow> error option \<Rightarrow> tracerProviderCache
     \<Rightarrow> error option \<times> event list \<times> tracerProviderCache" where
  "OpenTelemetry_Cleanup tracerProviderKey flushErr shutdownErr t =
     (case cleanupTracerProvider tracerProviderKey flushErr shutdownErr t of
        (Some err, evs, t') \<Rightarrow> (Some (Errorf ''tracerProvider shutdown: '' err []), evs, t')
      | (None, evs, t') \<Rightarrow> (None, evs, t'))"

text \<open>A call on the cache, and a sequence of calls run from a given cache.\<close>

datatype call =
    Get string "TracerProviderOption list"
  | Cleanup string "error option" "error option"

fun exec :: "call \<Rightarrow> tracerProviderCache \<Rightarrow> tracerProviderCache" where
  "exec (Get key opts) t = snd (getTracerProvider key opts t)"
| "exec (Cleanup key flushErr shutdownErr) t =
     snd (snd (cleanupTracerProvider key flushErr shutdownErr t))"

fun runCalls :: "call list \<Rightarrow> tracerProviderCache \<Rightarrow> tracerProviderCache" where
  "runCalls [] t = t"
| "runCalls (c # cs) t = runCalls cs (exec c t)"

section \<open>Strings (the two functions of package strings that tracer.go calls)\<close>

text \<open>
  A Go string is a sequence of bytes, and so is a \<open>string\<close> here.
  \<^verbatim>\<open>strings.Split(s, sep)\<close> for a separator of one byte: the pieces between the
  separators, so one piece more than there are separators; the empty string gives one
  empty piece. The result of the recursive call is never the empty list
  (\<open>strings_Split_not_empty\<close> below), so the last case is never taken.
\<close>

fun strings_Split :: "string \<Rightarrow> char \<Rightarrow> string list" where
  "strings_Split [] sep = [[]]"
| "strings_Split (c # cs) sep =
     (if c = sep then [] # strings_Split cs sep
      else (case strings_Split cs sep of
              piece # pieces \<Rightarrow> (c # piece) # pieces
            | [] \<Rightarrow> [[c]]))"

text \<open>
  \<^verbatim>\<open>strings.TrimSpace\<close> removes the leading and trailing runes for which
  \<^verbatim>\<open>unicode.IsSpace\<close> holds. \<open>spaceRunes\<close> lists their UTF-8 encodings: tab, line
  feed, vertical tab, form feed, carriage return, space, U+0085, U+00A0, U+1680,
  U+2000 to U+200A, U+2028, U+2029, U+202F, U+205F and U+3000. No encoding is a prefix
  of another, each multi-byte encoding is a start byte followed by continuation bytes,
  and a byte sequence that is not valid UTF-8 decodes to U+FFFD, which is not a space; so
  decoding a space rune at the front (at the back) of the bytes is having one of these
  encodings as a prefix (as a suffix).
\<close>

definition spaceRunes :: "string list" where
  "spaceRunes =
     [[CHR 0x09], [CHR 0x0A], [CHR 0x0B], [CHR 0x0C], [CHR 0x0D], [CHR 0x20],
      [CHR 0xC2, CHR 0x85], [CHR 0xC2, CHR 0xA0],
      [CHR 0xE1, CHR 0x9A, CHR 0x80],
      [CHR 0xE2, CHR 0x80, CHR 0x80], [CHR 0xE2, CHR 0x80, CHR 0x81],
      [CHR 0xE2, CHR 0x80, CHR 0x82], [CHR 0xE2, CHR 0x80, CHR 0x83],
      [CHR 0xE2, CHR 0x80, CHR 0x84], [CHR 0xE2, CHR 0x80, CHR 0x85],
      [CHR 0xE2, CHR 0x80, CHR 0x86], [CHR 0xE2, CHR 0x80, CHR 0x87],
      [CHR 0xE2, CHR 0x80, CHR 0x88], [CHR 0xE2, CHR 0x80, CHR 0x89],
      [CHR 0xE2, CHR 0x80, CHR 0x8A],
      [CHR 0xE2, CHR 0x80, CHR 0xA8], [CHR 0xE2, CHR 0x80, CHR 0xA9],
      [CHR 0xE2, CHR 0x80, CHR 0xAF],
      [CHR 0xE2, CHR 0x81, CHR 0x9F],
      [CHR 0xE3, CHR 0x80, CHR 0x80]]"

text \<open>Strip from the front of \<open>s\<close>, as long as there is one, a prefix that is in \<open>rs\<close>.\<close>

function trimPrefixes :: "string list \<Rightarrow> string \<Rightarrow> string" where
  "trimPrefixes rs s =
     (case find (\<lambda>r. r \<noteq> [] \<and> prefix r s) rs of
        Some r \<Rightarrow> trimPrefixes rs (drop (length r) s)
      | None \<Rightarrow> s)"
  by pat_completeness auto
termination
proof (relation "measure (\<lambda>(rs, s). length s)")
  show "wf (measure (\<lambda>(rs, s). length s))" by simp
next
  fix rs :: "string list" and s r :: string
  assume "find (\<lambda>r. r \<noteq> [] \<and> prefix r s) rs = Some r"
  then have "r \<noteq> []" and "prefix r s"
    by (auto simp: find_Some_iff)
  then have "s \<noteq> []" by auto
  with \<open>r \<noteq> []\<close> show "((rs, drop (length r) s), (rs, s)) \<in> measure (\<lambda>(rs, s). length s)"
    by simp
qed

definition strings_TrimSpace :: "string \<Rightarrow> string" where
  "strings_TrimSpace s =
     rev (trimPrefixes (map rev spaceRunes) (rev (trimPrefixes spaceRunes s)))"

section \<open>The wrapper (tracer.go)\<close>

text \<open>
  A propagator is \<^verbatim>\<open>propagation.Baggage{}\<close>, \<^verbatim>\<open>propagation.TraceContext{}\<close> or the
  composite that \<^verbatim>\<open>propagation.NewCompositeTextMapPropagator\<close> makes of a list.
\<close>

datatype TextMapPropagator =
    Baggage
  | TraceContext
  | CompositeTextMapPropagator "TextMapPropagator list"

text \<open>
  The loop of \<^verbatim>\<open>getPropagators\<close> over the pieces: \<open>deduplicationMap\<close> is the set of
  the map's keys and \<open>propagatorsList\<close> the slice built so far.
\<close>

fun getPropagatorsLoop ::
  "string list \<Rightarrow> string set \<Rightarrow> TextMapPropagator list \<Rightarrow> TextMapPropagator list" where
  "getPropagatorsLoop [] deduplicationMap propagatorsList = propagatorsList"
| "getPropagatorsLoop (v # vs) deduplicationMap propagatorsList =
     (let propagatorName = strings_TrimSpace v
      in if propagatorName \<notin> deduplicationMap then
           getPropagatorsLoop vs (insert propagatorName deduplicationMap)
             (if propagatorName = ''baggage'' then propagatorsList @ [Baggage]
              else if propagatorName = ''tracecontext'' then propagatorsList @ [TraceContext]
              else propagatorsList)
         else getPropagatorsLoop vs deduplicationMap propagatorsList)"

definition getPropagators :: "string \<Rightarrow> TextMapPropagator" where
  "getPropagators propagators =
     CompositeTextMapPropagator
       (getPropagatorsLoop (strings_Split propagators (CHR '','')) {} [])"

text \<open>
  The specification's words for the same thing, to compare with the code: split on
  commas, trim each token, keep the first occurrence of each name, map each recognised
  name to its codec and leave the others out, compose in that order.
\<close>

fun dedupFirst :: "'a list \<Rightarrow> 'a list" where
  "dedupFirst [] = []"
| "dedupFirst (x # xs) = x # dedupFirst (filter (\<lambda>y. y \<noteq> x) xs)"

definition codecOf :: "string \<Rightarrow> TextMapPropagator option" where
  "codecOf name =
     (if name = ''baggage'' then Some Baggage
      else if name = ''tracecontext'' then Some TraceContext
      else None)"

definition specPropagatorSet :: "string \<Rightarrow> TextMapPropagator" where
  "specPropagatorSet names =
     CompositeTextMapPropagator
       (List.map_filter codecOf
          (dedupFirst (map strings_TrimSpace (strings_Split names (CHR '','')))))"

text \<open>
  What the wrapper reads and calls outside the package: the process environment
  (\<^verbatim>\<open>os.Getenv\<close> gives the empty string for a variable that is not set), the version of
  the server, and the constructors of the tracing SDK and of gRPC, which may fail.
\<close>

record environment =
  Getenv :: "string \<Rightarrow> string"
  CaddyVersion :: string
  resource_New :: "(string \<times> string) list \<Rightarrow> error + resource"
  resource_Default :: resource
  resource_Merge :: "resource \<Rightarrow> resource \<Rightarrow> error + resource"
  NewClientTLSFromFile :: "string \<Rightarrow> error + TransportCredentials"
  otlptracegrpc_New :: "otlptracegrpcOption list \<Rightarrow> error + exporter"

definition envOtelPropagators :: string where
  "envOtelPropagators = ''OTEL_PROPAGATORS''"

definition envOtelExporterOtlpProtocol :: string where
  "envOtelExporterOtlpProtocol = ''OTEL_EXPORTER_OTLP_PROTOCOL''"

definition envOtelExporterOtlpTracesProtocol :: string where
  "envOtelExporterOtlpTracesProtocol = ''OTEL_EXPORTER_OTLP_TRACES_PROTOCOL''"

definition envOtelExporterOtlpCertificate :: string where
  "envOtelExporterOtlpCertificate = ''OTEL_EXPORTER_OTLP_CERTIFICATE''"

definition envOtelExporterOtlpTracesCertificate :: string where
  "envOtelExporterOtlpTracesCertificate = ''OTEL_EXPORTER_OTLP_TRACES_CERTIFICATE''"

definition webEngineName :: string where
  "webEngineName = ''Caddy''"

definition defaultServiceName :: string where
  "defaultServiceName = ''caddyService''"

definition defaultSpanName :: string where
  "defaultSpanName = ''handler''"

record tracerExporterConfig =
  exporterTracesProtocol :: string
  exporterCertificate :: string
  exporterTracesEndpoint :: string
  insecure :: bool

text \<open>A tracer is what \<^verbatim>\<open>Tracer(name)\<close> gives on a provider.\<close>

datatype Tracer = Tracer TracerProvider string

text \<open>The struct; \<open>None\<close> is the \<^verbatim>\<open>nil\<close> of the two interface fields.\<close>

record openTelemetryWrapper =
  tracer :: "Tracer option"
  propagators :: "TextMapPropagator option"
  tracerProviderKey :: string
  spanName :: string

text \<open>
  \<^verbatim>\<open>newResource\<close>: the three attributes under the keys of semconv v1.4.0, merged
  into the default resource.
\<close>

definition newResource :: "environment \<Rightarrow> string \<Rightarrow> string \<Rightarrow> string \<Rightarrow> error + resource" where
  "newResource env serviceName engineName webEngineDescription =
     (case resource_New env
             [(''service.name'', serviceName),
              (''webengine.name'', engineName),
              (''webengine.description'', webEngineDescription)] of
        Inl err \<Rightarrow> Inl err
      | Inr caddyResource \<Rightarrow> resource_Merge env (resource_Default env) caddyResource)"

definition getTracesProtocolFromEnv :: "environment \<Rightarrow> string" where
  "getTracesProtocolFromEnv env =
     (let protocol = Getenv env envOtelExporterOtlpTracesProtocol
      in if protocol = [] then Getenv env envOtelExporterOtlpProtocol else protocol)"

definition isCertificateHeaderSet :: "environment \<Rightarrow> bool" where
  "isCertificateHeaderSet env =
     (Getenv env envOtelExporterOtlpCertificate \<noteq> []
      \<or> Getenv env envOtelExporterOtlpTracesCertificate \<noteq> [])"

text \<open>
  \<^verbatim>\<open>getTracerExporter\<close>. \<open>withEndpoint\<close> is the tail of the \<^verbatim>\<open>"grpc"\<close> case, from
  the test of the endpoint on.
\<close>

definition withEndpoint ::
  "environment \<Rightarrow> tracerExporterConfig \<Rightarrow> otlptracegrpcOption list \<Rightarrow> error + exporter" where
  "withEndpoint env cfg opts =
     otlptracegrpc_New env
       (if exporterTracesEndpoint cfg \<noteq> []
        then opts @ [WithEndpoint (exporterTracesEndpoint cfg)]
        else opts)"

definition getTracerExporter :: "environment \<Rightarrow> tracerExporterConfig \<Rightarrow> error + exporter" where
  "getTracerExporter env cfg =
     (if exporterTracesProtocol cfg = ''grpc'' then
        (if insecure cfg then withEndpoint env cfg [WithInsecure]
         else if exporterCertificate cfg \<noteq> [] then
           (case NewClientTLSFromFile env (exporterCertificate cfg) of
              Inl err \<Rightarrow> Inl (Errorf ''credentials creation error: '' err [])
            | Inr transportCredentials \<Rightarrow>
                withEndpoint env cfg [WithTLSCredentials transportCredentials])
         else if \<not> isCertificateHeaderSet env then
           withEndpoint env cfg [WithTLSCredentials NewTLS]
         else withEndpoint env cfg [])
      else Inl (Errorf [] ErrNonSupportedTracesProtocol
                  ('': tracesProtocol '' @ exporterTracesProtocol cfg)))"

text \<open>
  The key: \<^verbatim>\<open>fmt.Sprintf("%s-%s-%s-%v-%s-%s", ...)\<close>. \<^verbatim>\<open>%s\<close> writes the bytes of a
  string and \<^verbatim>\<open>%v\<close> writes a bool as \<^verbatim>\<open>true\<close> or \<^verbatim>\<open>false\<close>.
\<close>

definition formatBool :: "bool \<Rightarrow> string" where
  "formatBool b = (if b then ''true'' else ''false'')"

definition tracerProviderKeyOf :: "string \<Rightarrow> string \<Rightarrow> tracerExporterConfig \<Rightarrow> string" where
  "tracerProviderKeyOf serviceName tracerName cfg =
     serviceName @ ''-'' @ tracerName @ ''-'' @ exporterTracesProtocol cfg @ ''-''
       @ formatBool (insecure cfg) @ ''-'' @ exporterCertificate cfg @ ''-''
       @ exporterTracesEndpoint cfg"

text \<open>
  \<^verbatim>\<open>newOpenTelemetryWrapper\<close>, on the cache \<open>t\<close> that stands for
  \<^verbatim>\<open>defaultTracerProviderCache\<close>. Go returns the wrapper together with the error, and
  so does the model; the third component is the cache afterwards.
\<close>

definition newOpenTelemetryWrapper ::
  "environment \<Rightarrow> string \<Rightarrow> string \<Rightarrow> string \<Rightarrow> string \<Rightarrow> tracerExporterConfig
     \<Rightarrow> tracerProviderCache
     \<Rightarrow> openTelemetryWrapper \<times> error option \<times> tracerProviderCache" where
  "newOpenTelemetryWrapper env serviceName0 propagators0 tracerName spanName0 cfg0 t =
     (let serviceName = (if serviceName0 = [] then defaultServiceName else serviceName0);
          spanName1 = (if spanName0 = [] then defaultSpanName else spanName0);
          ot = \<lparr>tracer = None, propagators = None, tracerProviderKey = [],
                spanName = spanName1\<rparr>
      in case newResource env serviceName webEngineName (CaddyVersion env) of
           Inl err \<Rightarrow> (ot, Some (Errorf ''creating resource error: '' err []), t)
         | Inr res \<Rightarrow>
             (let cfg = (if exporterTracesProtocol cfg0 = []
                         then cfg0\<lparr>exporterTracesProtocol := getTracesProtocolFromEnv env\<rparr>
                         else cfg0)
              in if exporterTracesProtocol cfg = [] then
                   (ot, Some ErrUnspecifiedTracesProtocol, t)
                 else
                   (case getTracerExporter env cfg of
                      Inl err \<Rightarrow>
                        (ot, Some (Errorf ''creating trace exporter error: '' err []), t)
                    | Inr traceExporter \<Rightarrow>
                        (let propagators1 = (if propagators0 = []
                                             then Getenv env envOtelPropagators
                                             else propagators0)
                         in if propagators1 = [] then
                              (ot, Some ErrUnspecifiedPropagators, t)
                            else
                              (let ot1 = ot\<lparr>propagators := Some (getPropagators propagators1)\<rparr>;
                                   ot2 = ot1\<lparr>tracerProviderKey :=
                                               tracerProviderKeyOf serviceName tracerName cfg\<rparr>;
                                   (tp, t') =
                                     getTracerProvider (tracerProviderKey ot2)
                                       [WithBatcher traceExporter, WithResource res] t
                               in (ot2\<lparr>tracer := Some (Tracer tp tracerName)\<rparr>, None, t'))))))"

text \<open>
  The export protocol after the fallback to the environment, as
  \<^verbatim>\<open>newOpenTelemetryWrapper\<close> resolves it, and the propagator list likewise.
\<close>

definition resolvedProtocol :: "environment \<Rightarrow> tracerExporterConfig \<Rightarrow> string" where
  "resolvedProtocol env cfg =
     (if exporterTracesProtocol cfg = [] then getTracesProtocolFromEnv env
      else exporterTracesProtocol cfg)"

definition resolvedPropagators :: "environment \<Rightarrow> string \<Rightarrow> string" where
  "resolvedPropagators env propagators0 =
     (if propagators0 = [] then Getenv env envOtelPropagators else propagators0)"

text \<open>
  Names for three pieces of \<^verbatim>\<open>newOpenTelemetryWrapper\<close>: the service name after the
  first \<^verbatim>\<open>if\<close>, the wrapper as it is returned on every error path (only the span name
  set, defaulted by the second \<^verbatim>\<open>if\<close>), and the exporter configuration after the
  protocol has been taken from the environment.
\<close>

definition serviceNameOrDefault :: "string \<Rightarrow> string" where
  "serviceNameOrDefault serviceName =
     (if serviceName = [] then defaultServiceName else serviceName)"

definition emptyWrapper :: "string \<Rightarrow> openTelemetryWrapper" where
  "emptyWrapper span =
     \<lparr>tracer = None, propagators = None, tracerProviderKey = [],
      spanName = (if span = [] then defaultSpanName else span)\<rparr>"

definition resolvedConfig :: "environment \<Rightarrow> tracerExporterConfig \<Rightarrow> tracerExporterConfig" where
  "resolvedConfig env cfg = cfg\<lparr>exporterTracesProtocol := resolvedProtocol env cfg\<rparr>"

section \<open>Notions used in the statements and proofs\<close>

text \<open>
  The registry invariant of the specification: a key has a provider exactly when its
  counter is at least 1.
\<close>

definition registryInvariant :: "tracerProviderCache \<Rightarrow> bool" where
  "registryInvariant t = (\<forall>key. (tracerProviders t key \<noteq> None) = (1 \<le> counterOf t key))"

text \<open>A call in which \<^verbatim>\<open>Shutdown\<close>, if it is made, returns \<^verbatim>\<open>nil\<close>.\<close>

fun shutdownSucceeds :: "call \<Rightarrow> bool" where
  "shutdownSucceeds (Get key opts) = True"
| "shutdownSucceeds (Cleanup key flushErr shutdownErr) = (shutdownErr = None)"

text \<open>
  Every pointer in the map has been allocated, and no two keys hold the same pointer.
\<close>

definition pointersAllocated :: "tracerProviderCache \<Rightarrow> bool" where
  "pointersAllocated t =
     ((\<forall>k p. tracerProviders t k = Some p \<longrightarrow> p < length (heap t))
      \<and> (\<forall>k k' p. tracerProviders t k = Some p \<and> tracerProviders t k' = Some p \<longrightarrow> k = k'))"

text \<open>
  \<open>t'\<close> is a later state of \<open>t\<close>: nothing was freed, and an entry of \<open>t'\<close> is an entry of
  \<open>t\<close> or points to an object allocated since.
\<close>

definition laterThan :: "tracerProviderCache \<Rightarrow> tracerProviderCache \<Rightarrow> bool" where
  "laterThan t t' =
     (length (heap t) \<le> length (heap t')
      \<and> (\<forall>k p. tracerProviders t' k = Some p \<longrightarrow>
             length (heap t) \<le> p \<or> tracerProviders t k = Some p))"

text \<open>
  A concrete environment and configuration for the examples: no variable is set, the
  collaborators succeed, and the exporter is asked for over insecure gRPC.
\<close>

definition plainEnvironment :: environment where
  "plainEnvironment =
     \<lparr>Getenv = (\<lambda>name. []),
      CaddyVersion = ''v2'',
      resource_New = (\<lambda>attrs. Inr attrs),
      resource_Default = [],
      resource_Merge = (\<lambda>a b. Inr (a @ b)),
      NewClientTLSFromFile = (\<lambda>file. Inr (ClientTLSFromFile file)),
      otlptracegrpc_New = (\<lambda>opts. Inr (Exporter opts))\<rparr>"

definition grpcConfig :: tracerExporterConfig where
  "grpcConfig =
     \<lparr>exporterTracesProtocol = ''grpc'', exporterCertificate = [],
      exporterTracesEndpoint = [], insecure = True\<rparr>"

text \<open>The same environment, except that \<^verbatim>\<open>resource.New\<close> returns an error.\<close>

definition resourceFailsEnvironment :: environment where
  "resourceFailsEnvironment =
     plainEnvironment\<lparr>resource_New := (\<lambda>attrs. Inl (External ''detecting resource failed''))\<rparr>"

section \<open>Lemmas about the cache\<close>

lemma get_providers:
  "tracerProviders (snd (getTracerProvider key opts t)) =
     (case tracerProviders t key of
        Some p \<Rightarrow> tracerProviders t
      | None \<Rightarrow> (tracerProviders t)(key \<mapsto> length (heap t)))"
  by (simp add: getTracerProvider_def Let_def split: option.splits)

lemma get_counter:
  "counterOf (snd (getTracerProvider key opts t)) k =
     (if k = key then counterOf t key + 1 else counterOf t k)"
  by (simp add: getTracerProvider_def Let_def counterOf_def split: option.splits)

lemma get_heap:
  "heap (snd (getTracerProvider key opts t)) =
     (case tracerProviders t key of Some p \<Rightarrow> heap t | None \<Rightarrow> heap t @ [opts])"
  by (simp add: getTracerProvider_def Let_def split: option.splits)

lemma get_result:
  "fst (getTracerProvider key opts t) =
     (case tracerProviders t key of Some p \<Rightarrow> p | None \<Rightarrow> length (heap t))"
  by (simp add: getTracerProvider_def Let_def split: option.splits)

lemma get_entry:
  "tracerProviders (snd (getTracerProvider key opts t)) key
     = Some (fst (getTracerProvider key opts t))"
  by (simp add: get_providers get_result split: option.splits)

lemma get_changes: "snd (getTracerProvider key opts t) \<noteq> t"
proof
  assume "snd (getTracerProvider key opts t) = t"
  then have "counterOf (snd (getTracerProvider key opts t)) key = counterOf t key"
    by simp
  then show False
    by (simp add: get_counter)
qed

lemma cleanup_heap:
  "heap (snd (snd (cleanupTracerProvider key f s t))) = heap t"
  by (simp add: cleanupTracerProvider_def Let_def deleteKey_def split: option.splits)

lemma cleanup_providers:
  "tracerProviders (snd (snd (cleanupTracerProvider key f s t))) k = Some p
     \<Longrightarrow> tracerProviders t k = Some p"
  by (auto simp: cleanupTracerProvider_def Let_def deleteKey_def
           split: option.splits if_splits)

text \<open>
  A key that is in neither map: the call returns \<^verbatim>\<open>nil\<close>, calls nothing and leaves
  the cache as it was.
\<close>

lemma cleanup_absent_key:
  assumes "tracerProviders t key = None" and "tracerProvidersCounter t key = None"
  shows "cleanupTracerProvider key flushErr shutdownErr t = (None, [], t)"
proof -
  have "deleteKey key t = t"
    using assms by (simp add: deleteKey_def fun_upd_idem)
  with assms show ?thesis
    by (simp add: cleanupTracerProvider_def counterOf_def)
qed

text \<open>A step never replaces the provider of a key that keeps its entry.\<close>

lemma exec_keeps_entry:
  assumes "tracerProviders t k = Some p" and "tracerProviders (exec c t) k = Some q"
  shows "q = p"
proof (cases c)
  case (Get key opts)
  with assms show ?thesis
    by (auto simp: get_providers split: option.splits if_splits)
next
  case (Cleanup key f s)
  with assms show ?thesis
    by (auto dest: cleanup_providers)
qed

lemma run_keeps_entry:
  "tracerProviders t k = Some p
   \<Longrightarrow> (\<forall>n \<le> length cs. tracerProviders (runCalls (take n cs) t) k \<noteq> None)
   \<Longrightarrow> tracerProviders (runCalls cs t) k = Some p"
proof (induction cs arbitrary: t)
  case Nil
  then show ?case by simp
next
  case (Cons c cs)
  have "Suc 0 \<le> length (c # cs)" by simp
  with Cons.prems(2) have "tracerProviders (runCalls (take (Suc 0) (c # cs)) t) k \<noteq> None"
    by blast
  then obtain q where q: "tracerProviders (exec c t) k = Some q" by auto
  have "q = p" by (rule exec_keeps_entry[OF Cons.prems(1) q])
  have "\<forall>n \<le> length cs. tracerProviders (runCalls (take n cs) (exec c t)) k \<noteq> None"
  proof (intro allI impI)
    fix n assume "n \<le> length cs"
    then have "Suc n \<le> length (c # cs)" by simp
    with Cons.prems(2) have "tracerProviders (runCalls (take (Suc n) (c # cs)) t) k \<noteq> None"
      by blast
    then show "tracerProviders (runCalls (take n cs) (exec c t)) k \<noteq> None" by simp
  qed
  with Cons.IH[of "exec c t"] q \<open>q = p\<close> show ?case by simp
qed

text \<open>The same, when the entry is known to be there after each of the calls.\<close>

lemma run_keeps_entry_after:
  assumes "tracerProviders t k = Some p"
    and "\<forall>n < length cs. tracerProviders (runCalls (take (Suc n) cs) t) k \<noteq> None"
  shows "tracerProviders (runCalls cs t) k = Some p"
proof (rule run_keeps_entry[OF assms(1)], intro allI impI)
  fix n
  assume le: "n \<le> length cs"
  show "tracerProviders (runCalls (take n cs) t) k \<noteq> None"
  proof (cases n)
    case 0
    with assms(1) show ?thesis by simp
  next
    case (Suc m)
    with le have "m < length cs" by simp
    with assms(2) Suc show ?thesis by blast
  qed
qed

lemma pointersAllocated_default: "pointersAllocated defaultTracerProviderCache"
  by (simp add: pointersAllocated_def defaultTracerProviderCache_def)

lemma pointersAllocated_exec:
  assumes "pointersAllocated t"
  shows "pointersAllocated (exec c t)"
proof (cases c)
  case (Get key opts)
  with assms show ?thesis
    unfolding pointersAllocated_def
    by (auto simp: get_providers get_heap less_Suc_eq split: option.splits if_splits)
next
  case (Cleanup key f s)
  with assms show ?thesis
    unfolding pointersAllocated_def
    by (auto simp: cleanup_heap dest!: cleanup_providers)
qed

lemma pointersAllocated_run: "pointersAllocated t \<Longrightarrow> pointersAllocated (runCalls cs t)"
  by (induction cs arbitrary: t) (simp_all add: pointersAllocated_exec)

lemma laterThan_refl: "laterThan t t"
  by (simp add: laterThan_def)

lemma laterThan_exec:
  assumes "laterThan t t'"
  shows "laterThan t (exec c t')"
proof (cases c)
  case (Get key opts)
  with assms show ?thesis
    unfolding laterThan_def
    by (auto simp: get_providers get_heap split: option.splits if_splits)
next
  case (Cleanup key f s)
  with assms show ?thesis
    unfolding laterThan_def
    by (auto simp: cleanup_heap dest!: cleanup_providers)
qed

lemma laterThan_run: "laterThan t t' \<Longrightarrow> laterThan t (runCalls cs t')"
  by (induction cs arbitrary: t') (simp_all add: laterThan_exec)

lemma different_keys:
  assumes inv: "pointersAllocated t" and ne: "key \<noteq> key'"
  shows "fst (getTracerProvider key' opts' (runCalls mid (snd (getTracerProvider key opts t))))
           \<noteq> fst (getTracerProvider key opts t)"
proof -
  let ?t1 = "snd (getTracerProvider key opts t)"
  let ?p1 = "fst (getTracerProvider key opts t)"
  let ?t2 = "runCalls mid ?t1"
  have inv1: "pointersAllocated ?t1"
    using pointersAllocated_exec[OF inv, of "Get key opts"] by simp
  have e1: "tracerProviders ?t1 key = Some ?p1" by (rule get_entry)
  with inv1 have lt: "?p1 < length (heap ?t1)" by (auto simp: pointersAllocated_def)
  have later: "laterThan ?t1 ?t2" by (rule laterThan_run[OF laterThan_refl])
  show ?thesis
  proof (cases "tracerProviders ?t2 key'")
    case None
    then have "fst (getTracerProvider key' opts' ?t2) = length (heap ?t2)"
      by (simp add: get_result)
    with later lt show ?thesis by (auto simp: laterThan_def)
  next
    case (Some q)
    then have r: "fst (getTracerProvider key' opts' ?t2) = q" by (simp add: get_result)
    from later Some have "length (heap ?t1) \<le> q \<or> tracerProviders ?t1 key' = Some q"
      by (auto simp: laterThan_def)
    then show ?thesis
    proof
      assume "length (heap ?t1) \<le> q"
      with lt r show ?thesis by simp
    next
      assume "tracerProviders ?t1 key' = Some q"
      with e1 inv1 ne have "q \<noteq> ?p1" unfolding pointersAllocated_def by blast
      with r show ?thesis by simp
    qed
  qed
qed

text \<open>
  As long as no \<^verbatim>\<open>Shutdown\<close> fails, the registry invariant holds in every state that
  is reached from the empty cache, and no counter is negative.
\<close>

lemma registryInvariant_exec:
  assumes "registryInvariant t" and "\<forall>k. 0 \<le> counterOf t k" and "shutdownSucceeds c"
  shows "registryInvariant (exec c t) \<and> (\<forall>k. 0 \<le> counterOf (exec c t) k)"
proof (cases c)
  case (Get key opts)
  have "registryInvariant (snd (getTracerProvider key opts t))"
    unfolding registryInvariant_def
  proof
    fix k
    show "(tracerProviders (snd (getTracerProvider key opts t)) k \<noteq> None)
            = (1 \<le> counterOf (snd (getTracerProvider key opts t)) k)"
      using assms(1) assms(2)[rule_format, of key]
      by (auto simp: registryInvariant_def get_providers get_counter split: option.splits)
  qed
  moreover have "\<forall>k. 0 \<le> counterOf (snd (getTracerProvider key opts t)) k"
    using assms(2) by (simp add: get_counter)
  ultimately show ?thesis using Get by simp
next
  case (Cleanup key f s)
  with assms(3) have s: "s = None" by simp
  have inv: "\<And>k. (tracerProviders t k \<noteq> None) = (1 \<le> counterOf t k)"
    using assms(1) by (simp add: registryInvariant_def)
  have nn: "\<And>k. 0 \<le> counterOf t k" using assms(2) by simp
  show ?thesis
  proof (cases "1 \<le> counterOf t key")
    case False
    with nn[of key] have z: "counterOf t key = 0" by simp
    with inv[of key] have "tracerProviders t key = None" by simp
    with z have "exec c t = deleteKey key t"
      using Cleanup by (simp add: cleanupTracerProvider_def)
    moreover have "\<And>k. counterOf (deleteKey key t) k = counterOf t k"
      using z by (simp add: deleteKey_def counterOf_def)
    moreover have "\<And>k. tracerProviders (deleteKey key t) k = tracerProviders t k"
      using \<open>tracerProviders t key = None\<close> by (simp add: deleteKey_def)
    ultimately show ?thesis using inv nn by (simp add: registryInvariant_def)
  next
    case True
    with inv[of key] obtain p where p: "tracerProviders t key = Some p" by auto
    show ?thesis
    proof (cases "counterOf t key = 1")
      case True
      with p s have "exec c t =
          deleteKey key (t\<lparr>tracerProvidersCounter := (tracerProvidersCounter t)(key \<mapsto> 0)\<rparr>)"
        using Cleanup by (simp add: cleanupTracerProvider_def counterOf_def)
      moreover have "\<And>k. counterOf (deleteKey key
            (t\<lparr>tracerProvidersCounter := (tracerProvidersCounter t)(key \<mapsto> 0)\<rparr>)) k
          = (if k = key then 0 else counterOf t k)"
        by (simp add: deleteKey_def counterOf_def)
      moreover have "\<And>k. tracerProviders (deleteKey key
            (t\<lparr>tracerProvidersCounter := (tracerProvidersCounter t)(key \<mapsto> 0)\<rparr>)) k
          = (if k = key then None else tracerProviders t k)"
        by (simp add: deleteKey_def)
      ultimately show ?thesis using inv nn by (simp add: registryInvariant_def)
    next
      case False
      with \<open>1 \<le> counterOf t key\<close> have gt: "1 < counterOf t key" by simp
      then have "exec c t =
          t\<lparr>tracerProvidersCounter := (tracerProvidersCounter t)(key \<mapsto> counterOf t key - 1)\<rparr>"
        using Cleanup by (simp add: cleanupTracerProvider_def counterOf_def)
      moreover have "\<And>k. counterOf
            (t\<lparr>tracerProvidersCounter := (tracerProvidersCounter t)(key \<mapsto> counterOf t key - 1)\<rparr>) k
          = (if k = key then counterOf t key - 1 else counterOf t k)"
        by (simp add: counterOf_def)
      ultimately show ?thesis using inv nn gt p by (auto simp: registryInvariant_def)
    qed
  qed
qed

lemma registryInvariant_run:
  "registryInvariant t \<Longrightarrow> \<forall>k. 0 \<le> counterOf t k \<Longrightarrow> list_all shutdownSucceeds cs
   \<Longrightarrow> registryInvariant (runCalls cs t) \<and> (\<forall>k. 0 \<le> counterOf (runCalls cs t) k)"
proof (induction cs arbitrary: t)
  case Nil
  then show ?case by simp
next
  case (Cons c cs)
  from Cons.prems have "registryInvariant (exec c t) \<and> (\<forall>k. 0 \<le> counterOf (exec c t) k)"
    by (intro registryInvariant_exec) simp_all
  with Cons.IH[of "exec c t"] Cons.prems(3) show ?case by simp
qed

lemma registryInvariant_when_shutdown_succeeds:
  "list_all shutdownSucceeds cs
   \<Longrightarrow> registryInvariant (runCalls cs defaultTracerProviderCache)"
  using registryInvariant_run[of defaultTracerProviderCache cs]
  by (simp add: registryInvariant_def defaultTracerProviderCache_def counterOf_def)

section \<open>Lemmas about the wrapper\<close>

lemma cfg_resolved:
  "(if exporterTracesProtocol cfg = []
    then cfg\<lparr>exporterTracesProtocol := getTracesProtocolFromEnv env\<rparr> else cfg)
   = resolvedConfig env cfg"
  by (simp add: resolvedProtocol_def resolvedConfig_def)

lemma resolvedConfig_protocol [simp]:
  "exporterTracesProtocol (resolvedConfig env cfg) = resolvedProtocol env cfg"
  by (simp add: resolvedConfig_def)

text \<open>The function, path by path.\<close>

lemma wrapper_unfold:
  "newOpenTelemetryWrapper env serviceName props tracerName span cfg t =
     (case newResource env (serviceNameOrDefault serviceName) webEngineName (CaddyVersion env) of
        Inl err \<Rightarrow> (emptyWrapper span, Some (Errorf ''creating resource error: '' err []), t)
      | Inr res \<Rightarrow>
          if resolvedProtocol env cfg = [] then
            (emptyWrapper span, Some ErrUnspecifiedTracesProtocol, t)
          else
            (case getTracerExporter env (resolvedConfig env cfg) of
               Inl err \<Rightarrow>
                 (emptyWrapper span, Some (Errorf ''creating trace exporter error: '' err []), t)
             | Inr traceExporter \<Rightarrow>
                 if resolvedPropagators env props = [] then
                   (emptyWrapper span, Some ErrUnspecifiedPropagators, t)
                 else
                   ((emptyWrapper span)
                      \<lparr>tracer := Some (Tracer
                           (fst (getTracerProvider
                                   (tracerProviderKeyOf (serviceNameOrDefault serviceName) tracerName
                                      (resolvedConfig env cfg))
                                   [WithBatcher traceExporter, WithResource res] t))
                           tracerName),
                        propagators := Some (getPropagators (resolvedPropagators env props)),
                        tracerProviderKey :=
                          tracerProviderKeyOf (serviceNameOrDefault serviceName) tracerName
                            (resolvedConfig env cfg)\<rparr>,
                    None,
                    snd (getTracerProvider
                           (tracerProviderKeyOf (serviceNameOrDefault serviceName) tracerName
                              (resolvedConfig env cfg))
                           [WithBatcher traceExporter, WithResource res] t))))"
  unfolding newOpenTelemetryWrapper_def cfg_resolved
  by (simp add: Let_def emptyWrapper_def serviceNameOrDefault_def resolvedPropagators_def
           split: sum.split prod.split)

lemma getTracerExporter_grpc_only:
  "exporterTracesProtocol cfg \<noteq> ''grpc'' \<Longrightarrow>
   getTracerExporter env cfg =
     Inl (Errorf [] ErrNonSupportedTracesProtocol
            ('': tracesProtocol '' @ exporterTracesProtocol cfg))"
  by (simp add: getTracerExporter_def)

lemma plain_resource:
  "newResource plainEnvironment serviceName engineName description =
     Inr [(''service.name'', serviceName), (''webengine.name'', engineName),
          (''webengine.description'', description)]"
  by (simp add: newResource_def plainEnvironment_def)

section \<open>Lemmas about the propagators\<close>

lemma strings_Split_not_empty: "strings_Split s sep \<noteq> []"
  by (induction s) (auto split: list.splits)

lemma getPropagatorsLoop_spec:
  "getPropagatorsLoop vs D acc =
     acc @ List.map_filter codecOf
             (dedupFirst (filter (\<lambda>n. n \<notin> D) (map strings_TrimSpace vs)))"
proof (induction vs arbitrary: D acc)
  case Nil
  then show ?case by (simp add: List.map_filter_simps)
next
  case (Cons v vs)
  show ?case
    by (simp add: Cons.IH Let_def List.map_filter_simps codecOf_def conj_commute)
qed

section \<open>The claims\<close>

text \<open>
  C1 (registry invariant: from the empty cache, after any sequence of acquires and
  releases, a key has an entry in \<open>tracerProviders\<close> exactly when its counter is at least
  1). The code breaks it: one acquire of a key followed by one release in which
  \<^verbatim>\<open>Shutdown\<close> returns an error leaves the entry in the map with the counter at 0,
  because the function returns before the two \<^verbatim>\<open>delete\<close>s.
  \<open>registryInvariant_when_shutdown_succeeds\<close> above shows that this return is the only
  way out of the invariant.
\<close>

theorem registry_entry_with_zero_counter:
  "tracerProviders
     (runCalls [Get ''k'' [], Cleanup ''k'' None (Some (External ''boom''))]
        defaultTracerProviderCache) ''k'' = Some 0
   \<and> counterOf
       (runCalls [Get ''k'' [], Cleanup ''k'' None (Some (External ''boom''))]
          defaultTracerProviderCache) ''k'' = 0
   \<and> \<not> registryInvariant
         (runCalls [Get ''k'' [], Cleanup ''k'' None (Some (External ''boom''))]
            defaultTracerProviderCache)"
proof -
  let ?t = "runCalls [Get ''k'' [], Cleanup ''k'' None (Some (External ''boom''))]
              defaultTracerProviderCache"
  have p: "tracerProviders ?t ''k'' = Some 0" by code_simp
  have c: "counterOf ?t ''k'' = 0" by code_simp
  have "\<not> registryInvariant ?t"
  proof
    assume "registryInvariant ?t"
    then have "(tracerProviders ?t ''k'' \<noteq> None) = (1 \<le> counterOf ?t ''k'')"
      unfolding registryInvariant_def by blast
    with p c show False by simp
  qed
  with p c show ?thesis by simp
qed

text \<open>
  C2 (when the counter of a key reaches 0 in \<^verbatim>\<open>cleanupTracerProvider\<close>, the entry and
  the counter are removed from the maps whatever \<^verbatim>\<open>ForceFlush\<close> and \<^verbatim>\<open>Shutdown\<close>
  return). The code does not do so when \<^verbatim>\<open>Shutdown\<close> fails: the last holder of
  \<^verbatim>\<open>"k"\<close> releases it, \<^verbatim>\<open>Shutdown\<close> returns an error, the error is returned wrapped,
  and both maps still hold the key.
\<close>

theorem entry_survives_failed_shutdown:
  "counterOf (snd (getTracerProvider ''k'' [] defaultTracerProviderCache)) ''k'' = 1
   \<and> fst (cleanupTracerProvider ''k'' None (Some (External ''boom''))
            (snd (getTracerProvider ''k'' [] defaultTracerProviderCache)))
       = Some (Errorf ''tracerProviderCache shutdown error: '' (External ''boom'') [])
   \<and> tracerProviders
       (snd (snd (cleanupTracerProvider ''k'' None (Some (External ''boom''))
                    (snd (getTracerProvider ''k'' [] defaultTracerProviderCache))))) ''k''
       = Some 0
   \<and> tracerProvidersCounter
       (snd (snd (cleanupTracerProvider ''k'' None (Some (External ''boom''))
                    (snd (getTracerProvider ''k'' [] defaultTracerProviderCache))))) ''k''
       = Some 0"
  by code_simp

text \<open>
  C3 (a provider is created at most once while the entry of its key is live: two
  acquires of one key while the entry exists return the same instance, and acquires of
  two different keys never return the same instance). In a state \<open>t\<close> reached from the
  empty cache: every acquire leaves the provider it returns in the map under its key; an
  acquire of a key that has an entry returns that entry and allocates nothing; an acquire
  of a key that has none allocates exactly one provider, the one it returns; if the entry
  of \<open>key\<close> is there after each of the calls \<open>mid\<close> that follow an acquire of \<open>key\<close>
  (none, when the next acquire follows at once), the next acquire of \<open>key\<close> returns the
  same pointer and allocates nothing; and whatever the calls \<open>mid\<close> are, a later acquire
  of another key returns another pointer.
\<close>

theorem getTracerProvider_shares:
  assumes "t = runCalls cs defaultTracerProviderCache"
  shows "tracerProviders (snd (getTracerProvider key opts t)) key
           = Some (fst (getTracerProvider key opts t))
       \<and> (tracerProviders t key = Some p \<longrightarrow>
            fst (getTracerProvider key opts t) = p
            \<and> heap (snd (getTracerProvider key opts t)) = heap t)
       \<and> (tracerProviders t key = None \<longrightarrow>
            fst (getTracerProvider key opts t) = length (heap t)
            \<and> heap (snd (getTracerProvider key opts t)) = heap t @ [opts])
       \<and> ((\<forall>n < length mid.
              tracerProviders
                (runCalls (take (Suc n) mid) (snd (getTracerProvider key opts t))) key
                \<noteq> None)
          \<longrightarrow> fst (getTracerProvider key opts'
                      (runCalls mid (snd (getTracerProvider key opts t))))
                = fst (getTracerProvider key opts t)
            \<and> heap (snd (getTracerProvider key opts'
                            (runCalls mid (snd (getTracerProvider key opts t)))))
                = heap (runCalls mid (snd (getTracerProvider key opts t))))
       \<and> (key \<noteq> key' \<longrightarrow>
            fst (getTracerProvider key' opts'
                   (runCalls mid (snd (getTracerProvider key opts t))))
              \<noteq> fst (getTracerProvider key opts t))"
proof (intro conjI impI)
  show "tracerProviders (snd (getTracerProvider key opts t)) key
          = Some (fst (getTracerProvider key opts t))"
    by (rule get_entry)
next
  assume "tracerProviders t key = Some p"
  then show "fst (getTracerProvider key opts t) = p" by (simp add: get_result)
next
  assume "tracerProviders t key = Some p"
  then show "heap (snd (getTracerProvider key opts t)) = heap t" by (simp add: get_heap)
next
  assume "tracerProviders t key = None"
  then show "fst (getTracerProvider key opts t) = length (heap t)" by (simp add: get_result)
next
  assume "tracerProviders t key = None"
  then show "heap (snd (getTracerProvider key opts t)) = heap t @ [opts]"
    by (simp add: get_heap)
next
  assume live: "\<forall>n < length mid.
     tracerProviders (runCalls (take (Suc n) mid) (snd (getTracerProvider key opts t))) key
       \<noteq> None"
  have "tracerProviders (runCalls mid (snd (getTracerProvider key opts t))) key
          = Some (fst (getTracerProvider key opts t))"
    by (rule run_keeps_entry_after[OF get_entry live])
  then show "fst (getTracerProvider key opts'
                    (runCalls mid (snd (getTracerProvider key opts t))))
                = fst (getTracerProvider key opts t)"
    and "heap (snd (getTracerProvider key opts'
                      (runCalls mid (snd (getTracerProvider key opts t)))))
                = heap (runCalls mid (snd (getTracerProvider key opts t)))"
    by (simp_all add: get_result get_heap)
next
  assume "key \<noteq> key'"
  moreover have "pointersAllocated t"
    using assms pointersAllocated_run[OF pointersAllocated_default] by simp
  ultimately show "fst (getTracerProvider key' opts'
                          (runCalls mid (snd (getTracerProvider key opts t))))
              \<noteq> fst (getTracerProvider key opts t)"
    by (rule different_keys[rotated])
qed

theorem getTracerProvider_shares_witness:
  "tracerProviders (runCalls [Get ''b'' []] defaultTracerProviderCache) ''a'' = None
   \<and> tracerProviders (runCalls [Get ''b'' []] defaultTracerProviderCache) ''b'' = Some 0
   \<and> fst (getTracerProvider ''a'' [WithResource [(''service.name'', ''a'')]]
            (runCalls [Get ''b'' []] defaultTracerProviderCache)) = 1
   \<and> heap (snd (getTracerProvider ''a'' [WithResource [(''service.name'', ''a'')]]
                  (runCalls [Get ''b'' []] defaultTracerProviderCache)))
       = [[], [WithResource [(''service.name'', ''a'')]]]
   \<and> fst (getTracerProvider ''b'' []
            (runCalls [Get ''b'' []] defaultTracerProviderCache)) = 0
   \<and> tracerProviders
         (runCalls [Get ''b'' []]
            (snd (getTracerProvider ''a'' [WithResource [(''service.name'', ''a'')]]
                    (runCalls [Get ''b'' []] defaultTracerProviderCache)))) ''a'' \<noteq> None
   \<and> tracerProviders
         (runCalls [Get ''b'' [], Get ''a'' []]
            (snd (getTracerProvider ''a'' [WithResource [(''service.name'', ''a'')]]
                    (runCalls [Get ''b'' []] defaultTracerProviderCache)))) ''a'' \<noteq> None
   \<and> tracerProviders
         (runCalls [Get ''b'' [], Get ''a'' [], Cleanup ''a'' None None]
            (snd (getTracerProvider ''a'' [WithResource [(''service.name'', ''a'')]]
                    (runCalls [Get ''b'' []] defaultTracerProviderCache)))) ''a'' \<noteq> None
   \<and> fst (getTracerProvider ''a'' []
            (runCalls [Get ''b'' [], Get ''a'' [], Cleanup ''a'' None None]
               (snd (getTracerProvider ''a'' [WithResource [(''service.name'', ''a'')]]
                       (runCalls [Get ''b'' []] defaultTracerProviderCache))))) = 1
   \<and> fst (getTracerProvider ''a'' []
            (snd (getTracerProvider ''a'' [WithResource [(''service.name'', ''a'')]]
                    (runCalls [Get ''b'' []] defaultTracerProviderCache)))) = 1
   \<and> fst (getTracerProvider ''c'' []
            (runCalls [Get ''b'' [], Get ''a'' [], Cleanup ''a'' None None]
               (snd (getTracerProvider ''a'' [WithResource [(''service.name'', ''a'')]]
                       (runCalls [Get ''b'' []] defaultTracerProviderCache))))) \<noteq> 1"
proof -
  let ?cs = "[Get ''b'' []]"
  let ?t = "runCalls ?cs defaultTracerProviderCache"
  let ?o = "[WithResource [(''service.name'', ''a'')]]"
  let ?mid = "[Get ''b'' [], Get ''a'' [], Cleanup ''a'' None None]"
  let ?t1 = "snd (getTracerProvider ''a'' ?o ?t)"
  have absent: "tracerProviders ?t ''a'' = None" by code_simp
  have present: "tracerProviders ?t ''b'' = Some 0" by code_simp
  have l1: "tracerProviders (runCalls [Get ''b'' []] ?t1) ''a'' \<noteq> None" by code_simp
  have l2: "tracerProviders (runCalls [Get ''b'' [], Get ''a'' []] ?t1) ''a'' \<noteq> None"
    by code_simp
  have l3: "tracerProviders (runCalls ?mid ?t1) ''a'' \<noteq> None" by code_simp
  have live: "\<forall>n < length ?mid. tracerProviders (runCalls (take (Suc n) ?mid) ?t1) ''a'' \<noteq> None"
  proof (intro allI impI)
    fix n :: nat
    assume "n < length ?mid"
    then consider "n = 0" | "n = 1" | "n = 2" by (auto simp: less_Suc_eq)
    then show "tracerProviders (runCalls (take (Suc n) ?mid) ?t1) ''a'' \<noteq> None"
    proof cases
      case 1
      with l1 show ?thesis by simp
    next
      case 2
      with l2 show ?thesis by simp
    next
      case 3
      with l3 show ?thesis by simp
    qed
  qed
  have none: "\<forall>n < length ([] :: call list).
      tracerProviders (runCalls (take (Suc n) []) ?t1) ''a'' \<noteq> None"
    by simp
  have hl: "length (heap ?t) = 1" by code_simp
  have h: "heap ?t = [[]]" by code_simp
  have created: "fst (getTracerProvider ''a'' ?o ?t) = 1
                 \<and> heap (snd (getTracerProvider ''a'' ?o ?t)) = [[], ?o]"
    using getTracerProvider_shares[OF refl, where cs = ?cs and key = "''a''" and opts = ?o]
      absent hl h
    by simp
  have shared: "fst (getTracerProvider ''b'' [] ?t) = 0"
    using getTracerProvider_shares[OF refl, where cs = ?cs and key = "''b''" and p = 0
        and opts = "[]"] present
    by blast
  have again: "fst (getTracerProvider ''a'' [] (runCalls ?mid ?t1)) = 1"
    using getTracerProvider_shares[OF refl, where cs = ?cs and key = "''a''" and opts = ?o
        and opts' = "[]" and mid = ?mid] live created
    by simp
  have at_once: "fst (getTracerProvider ''a'' [] ?t1) = 1"
    using getTracerProvider_shares[OF refl, where cs = ?cs and key = "''a''" and opts = ?o
        and opts' = "[]" and mid = "[]"] none created
    by simp
  have ne: "''a'' \<noteq> ''c''" by simp
  have other: "fst (getTracerProvider ''c'' [] (runCalls ?mid ?t1)) \<noteq> 1"
    using getTracerProvider_shares[OF refl, where cs = ?cs and key = "''a''" and opts = ?o
        and opts' = "[]" and mid = ?mid and key' = "''c''"] ne created
    by simp
  from absent present created shared l1 l2 l3 again at_once other show ?thesis by blast
qed

text \<open>
  C4 (for a key whose counter is 0 or that is absent, \<^verbatim>\<open>cleanupTracerProvider\<close> changes
  nothing, calls neither \<^verbatim>\<open>ForceFlush\<close> nor \<^verbatim>\<open>Shutdown\<close> and returns \<^verbatim>\<open>nil\<close>).
  This holds for a key that is in neither map (\<open>cleanup_absent_key\<close> above), but not for
  the key that a failed \<^verbatim>\<open>Shutdown\<close> has left in the maps with the counter at 0: a
  further release of it flushes and shuts the provider down again, returns the error
  when \<^verbatim>\<open>Shutdown\<close> fails again, and removes the entry when it succeeds.
\<close>

theorem cleanup_at_zero_counter_shuts_down_again:
  "counterOf
     (runCalls [Get ''k'' [], Cleanup ''k'' None (Some (External ''boom''))]
        defaultTracerProviderCache) ''k'' = 0
   \<and> fst (cleanupTracerProvider ''k'' None (Some (External ''again''))
            (runCalls [Get ''k'' [], Cleanup ''k'' None (Some (External ''boom''))]
               defaultTracerProviderCache))
       = Some (Errorf ''tracerProviderCache shutdown error: '' (External ''again'') [])
   \<and> fst (snd (cleanupTracerProvider ''k'' None (Some (External ''again''))
                 (runCalls [Get ''k'' [], Cleanup ''k'' None (Some (External ''boom''))]
                    defaultTracerProviderCache)))
       = [ForceFlush 0, Shutdown 0]
   \<and> tracerProviders
       (runCalls [Get ''k'' [], Cleanup ''k'' None (Some (External ''boom''))]
          defaultTracerProviderCache) ''k'' = Some 0
   \<and> tracerProviders
       (snd (snd (cleanupTracerProvider ''k'' None None
                    (runCalls [Get ''k'' [], Cleanup ''k'' None (Some (External ''boom''))]
                       defaultTracerProviderCache)))) ''k'' = None"
  by code_simp

text \<open>
  C5 (the propagator list \<^verbatim>\<open>"tracecontext,tracecontext,baggage"\<close> builds the same
  composite as \<^verbatim>\<open>"tracecontext,baggage"\<close>; for every list, the tokens are split on
  commas, trimmed of whitespace, deduplicated keeping the first occurrence of each name,
  unrecognised names are dropped and the recognised codecs are composed in first-seen
  order). The loop of \<^verbatim>\<open>getPropagators\<close> computes what the specification describes,
  for every string.
\<close>

theorem getPropagators_dedup:
  "getPropagators ''tracecontext,tracecontext,baggage'' = getPropagators ''tracecontext,baggage''
   \<and> getPropagators ''tracecontext,baggage'' = CompositeTextMapPropagator [TraceContext, Baggage]
   \<and> getPropagators names = specPropagatorSet names"
proof (intro conjI)
  have a: "getPropagators ''tracecontext,tracecontext,baggage''
             = CompositeTextMapPropagator [TraceContext, Baggage]"
    by code_simp
  have b: "getPropagators ''tracecontext,baggage''
             = CompositeTextMapPropagator [TraceContext, Baggage]"
    by code_simp
  from a b show "getPropagators ''tracecontext,tracecontext,baggage''
                   = getPropagators ''tracecontext,baggage''"
    by simp
  from b show "getPropagators ''tracecontext,baggage''
                 = CompositeTextMapPropagator [TraceContext, Baggage]" .
  show "getPropagators names = specPropagatorSet names"
    by (simp add: getPropagators_def specPropagatorSet_def getPropagatorsLoop_spec)
qed

theorem getPropagators_dedup_witness:
  "getPropagators '' baggage ,foo, tracecontext,baggage,,tracecontext''
     = CompositeTextMapPropagator [Baggage, TraceContext]"
proof -
  have "specPropagatorSet '' baggage ,foo, tracecontext,baggage,,tracecontext''
          = CompositeTextMapPropagator [Baggage, TraceContext]"
    by code_simp
  with getPropagators_dedup[of "'' baggage ,foo, tracecontext,baggage,,tracecontext''"]
  show ?thesis by simp
qed

text \<open>
  C6 (setup fails with \<^verbatim>\<open>ErrUnspecifiedPropagators\<close> if and only if the list of
  propagator codecs that results from the resolved configuration value is empty). As
  stated this fails: with the propagators \<^verbatim>\<open>"foo"\<close> the list of codecs is empty and
  setup succeeds. The code tests the resolved string, not the list built from it.
\<close>

theorem unspecified_propagators_counterexample:
  "\<not> (fst (snd (newOpenTelemetryWrapper plainEnvironment [] ''foo'' ''my-tracer'' ''my-span''
                  grpcConfig defaultTracerProviderCache)) = Some ErrUnspecifiedPropagators
       \<longleftrightarrow> getPropagators (resolvedPropagators plainEnvironment ''foo'')
             = CompositeTextMapPropagator [])"
proof -
  have a: "getPropagators (resolvedPropagators plainEnvironment ''foo'')
             = CompositeTextMapPropagator []"
    by code_simp
  have b: "fst (snd (newOpenTelemetryWrapper plainEnvironment [] ''foo'' ''my-tracer''
                       ''my-span'' grpcConfig defaultTracerProviderCache)) = None"
    by code_simp
  show ?thesis using a b by simp
qed

text \<open>
  C6 as amended: \<^verbatim>\<open>newOpenTelemetryWrapper\<close> returns \<^verbatim>\<open>ErrUnspecifiedPropagators\<close>
  exactly when the resource and the exporter have been created and the propagators
  string, taken from \<^verbatim>\<open>OTEL_PROPAGATORS\<close> when the argument is empty, is the empty
  string.
\<close>

theorem unspecified_propagators_iff:
  "fst (snd (newOpenTelemetryWrapper env serviceName props tracerName span cfg t))
       = Some ErrUnspecifiedPropagators
   \<longleftrightarrow>
     (\<exists>res. newResource env (serviceNameOrDefault serviceName) webEngineName (CaddyVersion env)
              = Inr res)
     \<and> (\<exists>traceExporter. getTracerExporter env (resolvedConfig env cfg) = Inr traceExporter)
     \<and> resolvedPropagators env props = []"
proof (cases "newResource env (serviceNameOrDefault serviceName) webEngineName (CaddyVersion env)")
  case (Inl err)
  then show ?thesis by (simp add: wrapper_unfold)
next
  case (Inr res)
  show ?thesis
  proof (cases "getTracerExporter env (resolvedConfig env cfg)")
    case (Inl err)
    with Inr show ?thesis by (simp add: wrapper_unfold)
  next
    case exp: (Inr traceExporter)
    then have "resolvedProtocol env cfg = ''grpc''"
      using getTracerExporter_grpc_only[of "resolvedConfig env cfg" env] by auto
    with Inr exp show ?thesis by (simp add: wrapper_unfold)
  qed
qed

theorem unspecified_propagators_iff_witness:
  "fst (snd (newOpenTelemetryWrapper plainEnvironment [] [] ''my-tracer'' ''my-span''
               grpcConfig defaultTracerProviderCache)) = Some ErrUnspecifiedPropagators
   \<and> resolvedPropagators plainEnvironment [] = []"
proof -
  have r: "\<exists>res. newResource plainEnvironment (serviceNameOrDefault []) webEngineName
                   (CaddyVersion plainEnvironment) = Inr res"
    by (simp add: plain_resource)
  have "getTracerExporter plainEnvironment (resolvedConfig plainEnvironment grpcConfig)
          = Inr (Exporter [WithInsecure])"
    by code_simp
  then have e: "\<exists>traceExporter.
      getTracerExporter plainEnvironment (resolvedConfig plainEnvironment grpcConfig)
        = Inr traceExporter"
    by blast
  have p: "resolvedPropagators plainEnvironment [] = []" by code_simp
  from r e p
    unspecified_propagators_iff[of plainEnvironment "[]" "[]" "''my-tracer''" "''my-span''"
      grpcConfig defaultTracerProviderCache]
  show ?thesis by blast
qed

text \<open>
  C7 (the fingerprint is deterministic and injective over service name, tracer name,
  protocol, insecure flag, certificate and endpoint). It is a function of the six fields,
  but it is not injective: the fields are joined with \<^verbatim>\<open>-\<close> and may contain
  \<^verbatim>\<open>-\<close> themselves. The service \<^verbatim>\<open>shop-api\<close> with the tracer \<^verbatim>\<open>v1\<close> and the
  service \<^verbatim>\<open>shop\<close> with the tracer \<^verbatim>\<open>api-v1\<close> get the same key, so the second
  handler is given the provider of the first, whose resource names the service
  \<^verbatim>\<open>shop-api\<close>, and nothing is allocated for it.
\<close>

theorem tracerProviderKey_collision:
  "tracerProviderKeyOf ''shop-api'' ''v1'' grpcConfig = ''shop-api-v1-grpc-true--''
   \<and> tracerProviderKeyOf ''shop'' ''api-v1'' grpcConfig = ''shop-api-v1-grpc-true--''
   \<and> tracer (fst (newOpenTelemetryWrapper plainEnvironment ''shop-api'' ''tracecontext''
                    ''v1'' [] grpcConfig defaultTracerProviderCache))
       = Some (Tracer 0 ''v1'')
   \<and> tracer (fst (newOpenTelemetryWrapper plainEnvironment ''shop'' ''tracecontext''
                    ''api-v1'' [] grpcConfig
                    (snd (snd (newOpenTelemetryWrapper plainEnvironment ''shop-api''
                                 ''tracecontext'' ''v1'' [] grpcConfig
                                 defaultTracerProviderCache)))))
       = Some (Tracer 0 ''api-v1'')
   \<and> heap (snd (snd (newOpenTelemetryWrapper plainEnvironment ''shop'' ''tracecontext''
                    ''api-v1'' [] grpcConfig
                    (snd (snd (newOpenTelemetryWrapper plainEnvironment ''shop-api''
                                 ''tracecontext'' ''v1'' [] grpcConfig
                                 defaultTracerProviderCache))))))
       = [[WithBatcher (Exporter [WithInsecure]),
           WithResource [(''service.name'', ''shop-api''), (''webengine.name'', ''Caddy''),
                         (''webengine.description'', ''v2'')]]]"
  by code_simp

text \<open>
  C8 (in the release of the last holder, an error of \<^verbatim>\<open>ForceFlush\<close> is never
  returned and does not keep \<^verbatim>\<open>Shutdown\<close> from being called, an error of
  \<^verbatim>\<open>Shutdown\<close> is returned wrapped, and the returned error is non-nil only when
  \<^verbatim>\<open>Shutdown\<close> failed). For every cache and key: a returned error is the wrapped error
  of a \<^verbatim>\<open>Shutdown\<close> that was called; a provider that was flushed was shut down; the
  returned error and the cache do not depend on what \<^verbatim>\<open>ForceFlush\<close> returned; and
  for the last holder the calls are \<^verbatim>\<open>ForceFlush\<close>, the log line if it failed, then
  \<^verbatim>\<open>Shutdown\<close>, with the error of \<^verbatim>\<open>Shutdown\<close> wrapped once by the cache and once
  more by \<^verbatim>\<open>OpenTelemetry.Cleanup\<close>.
\<close>

theorem cleanup_errors:
  "(fst (cleanupTracerProvider key flushErr shutdownErr t) \<noteq> None \<longrightarrow>
      (\<exists>err tp. shutdownErr = Some err \<and>
         Shutdown tp \<in> set (fst (snd (cleanupTracerProvider key flushErr shutdownErr t))) \<and>
         fst (cleanupTracerProvider key flushErr shutdownErr t)
           = Some (Errorf ''tracerProviderCache shutdown error: '' err [])))
   \<and> (\<forall>tp. ForceFlush tp \<in> set (fst (snd (cleanupTracerProvider key flushErr shutdownErr t)))
         \<longrightarrow> Shutdown tp \<in> set (fst (snd (cleanupTracerProvider key flushErr shutdownErr t))))
   \<and> fst (cleanupTracerProvider key flushErr shutdownErr t)
        = fst (cleanupTracerProvider key None shutdownErr t)
   \<and> snd (snd (cleanupTracerProvider key flushErr shutdownErr t))
        = snd (snd (cleanupTracerProvider key None shutdownErr t))
   \<and> (counterOf t key = 1 \<and> tracerProviders t key = Some tp' \<longrightarrow>
        fst (cleanupTracerProvider key flushErr shutdownErr t)
          = map_option (\<lambda>err. Errorf ''tracerProviderCache shutdown error: '' err [])
              shutdownErr
        \<and> fst (snd (cleanupTracerProvider key flushErr shutdownErr t))
          = ForceFlush tp' #
            (case flushErr of
               Some err \<Rightarrow> [LogError (''forceFlush error: '' @ Error err)]
             | None \<Rightarrow> [])
            @ [Shutdown tp']
        \<and> fst (OpenTelemetry_Cleanup key flushErr shutdownErr t)
          = map_option (\<lambda>err. Errorf ''tracerProvider shutdown: ''
               (Errorf ''tracerProviderCache shutdown error: '' err []) []) shutdownErr)"
  by (auto simp: cleanupTracerProvider_def OpenTelemetry_Cleanup_def Let_def deleteKey_def
                 counterOf_def
           split: option.splits if_splits)

theorem cleanup_errors_witness:
  "counterOf (snd (getTracerProvider ''k'' [] defaultTracerProviderCache)) ''k'' = 1
   \<and> tracerProviders (snd (getTracerProvider ''k'' [] defaultTracerProviderCache)) ''k''
       = Some 0
   \<and> fst (cleanupTracerProvider ''k'' (Some (External ''slow'')) (Some (External ''boom''))
            (snd (getTracerProvider ''k'' [] defaultTracerProviderCache)))
       = Some (Errorf ''tracerProviderCache shutdown error: '' (External ''boom'') [])
   \<and> fst (snd (cleanupTracerProvider ''k'' (Some (External ''slow''))
                 (Some (External ''boom''))
                 (snd (getTracerProvider ''k'' [] defaultTracerProviderCache))))
       = [ForceFlush 0, LogError ''forceFlush error: slow'', Shutdown 0]
   \<and> fst (OpenTelemetry_Cleanup ''k'' (Some (External ''slow'')) (Some (External ''boom''))
            (snd (getTracerProvider ''k'' [] defaultTracerProviderCache)))
       = Some (Errorf ''tracerProvider shutdown: ''
                 (Errorf ''tracerProviderCache shutdown error: '' (External ''boom'') []) [])"
proof -
  let ?t = "snd (getTracerProvider ''k'' [] defaultTracerProviderCache)"
  have c: "counterOf ?t ''k'' = 1" by code_simp
  have p: "tracerProviders ?t ''k'' = Some 0" by code_simp
  have "counterOf ?t ''k'' = 1 \<and> tracerProviders ?t ''k'' = Some 0 \<longrightarrow>
        fst (cleanupTracerProvider ''k'' (Some (External ''slow'')) (Some (External ''boom'')) ?t)
          = map_option (\<lambda>err. Errorf ''tracerProviderCache shutdown error: '' err [])
              (Some (External ''boom''))
        \<and> fst (snd (cleanupTracerProvider ''k'' (Some (External ''slow''))
                      (Some (External ''boom'')) ?t))
          = ForceFlush 0 #
            (case Some (External ''slow'') of
               Some err \<Rightarrow> [LogError (''forceFlush error: '' @ Error err)]
             | None \<Rightarrow> [])
            @ [Shutdown 0]
        \<and> fst (OpenTelemetry_Cleanup ''k'' (Some (External ''slow''))
                 (Some (External ''boom'')) ?t)
          = map_option (\<lambda>err. Errorf ''tracerProvider shutdown: ''
               (Errorf ''tracerProviderCache shutdown error: '' err []) [])
              (Some (External ''boom''))"
    using cleanup_errors[of "''k''" "Some (External ''slow'')" "Some (External ''boom'')" ?t 0]
    by blast
  with c p show ?thesis by simp
qed

text \<open>
  C9 (when the resolved export protocol is neither empty nor \<^verbatim>\<open>grpc\<close>, setup fails
  with an error that wraps \<^verbatim>\<open>ErrNonSupportedTracesProtocol\<close> and acquires nothing from
  the cache). As stated this fails: the resource is built before the protocol is read,
  and when that step fails its error is the one returned. With the protocol
  \<^verbatim>\<open>http/1.1\<close> and a resource that cannot be built, the error is the resource error and
  does not wrap \<^verbatim>\<open>ErrNonSupportedTracesProtocol\<close>.
\<close>

theorem unsupported_protocol_counterexample:
  "resolvedProtocol resourceFailsEnvironment
       (grpcConfig\<lparr>exporterTracesProtocol := ''http/1.1''\<rparr>) = ''http/1.1''
   \<and> fst (snd (newOpenTelemetryWrapper resourceFailsEnvironment [] ''tracecontext,baggage''
                 ''my-tracer'' ''my-span''
                 (grpcConfig\<lparr>exporterTracesProtocol := ''http/1.1''\<rparr>)
                 defaultTracerProviderCache))
       = Some (Errorf ''creating resource error: '' (External ''detecting resource failed'') [])
   \<and> \<not> errors_Is
         (Errorf ''creating resource error: '' (External ''detecting resource failed'') [])
         ErrNonSupportedTracesProtocol"
  by code_simp

text \<open>
  C9 as amended: when the resolved export protocol is neither empty nor \<^verbatim>\<open>grpc\<close>,
  setup fails and acquires nothing from the cache: it returns an error, the cache is the
  one it was given, which no call of \<^verbatim>\<open>getTracerProvider\<close> leaves behind, and the
  wrapper has no tracer. Once the resource has been built, the error is the one of
  \<^verbatim>\<open>getTracerExporter\<close>, wrapped, and it wraps
  \<^verbatim>\<open>ErrNonSupportedTracesProtocol\<close>; when the resource cannot be built, the error is
  the one of that step, wrapped.
\<close>

theorem unsupported_protocol:
  assumes "resolvedProtocol env cfg \<noteq> []" and "resolvedProtocol env cfg \<noteq> ''grpc''"
  shows "fst (snd (newOpenTelemetryWrapper env serviceName props tracerName span cfg t)) \<noteq> None
    \<and> snd (snd (newOpenTelemetryWrapper env serviceName props tracerName span cfg t)) = t
    \<and> (\<forall>key opts. snd (getTracerProvider key opts t)
          \<noteq> snd (snd (newOpenTelemetryWrapper env serviceName props tracerName span cfg t)))
    \<and> tracer (fst (newOpenTelemetryWrapper env serviceName props tracerName span cfg t)) = None
    \<and> ((\<exists>res. newResource env (serviceNameOrDefault serviceName) webEngineName (CaddyVersion env)
               = Inr res) \<longrightarrow>
        fst (snd (newOpenTelemetryWrapper env serviceName props tracerName span cfg t))
          = Some (Errorf ''creating trace exporter error: ''
                    (Errorf [] ErrNonSupportedTracesProtocol
                       ('': tracesProtocol '' @ resolvedProtocol env cfg)) [])
        \<and> errors_Is (Errorf ''creating trace exporter error: ''
                    (Errorf [] ErrNonSupportedTracesProtocol
                       ('': tracesProtocol '' @ resolvedProtocol env cfg)) [])
             ErrNonSupportedTracesProtocol)
    \<and> (\<forall>err. newResource env (serviceNameOrDefault serviceName) webEngineName (CaddyVersion env)
               = Inl err \<longrightarrow>
        fst (snd (newOpenTelemetryWrapper env serviceName props tracerName span cfg t))
          = Some (Errorf ''creating resource error: '' err []))"
proof -
  have ex: "getTracerExporter env (resolvedConfig env cfg) =
     Inl (Errorf [] ErrNonSupportedTracesProtocol
            ('': tracesProtocol '' @ resolvedProtocol env cfg))"
    using getTracerExporter_grpc_only[of "resolvedConfig env cfg" env] assms(2) by simp
  show ?thesis
  proof (cases "newResource env (serviceNameOrDefault serviceName) webEngineName
                  (CaddyVersion env)")
    case (Inl err)
    then show ?thesis by (simp add: wrapper_unfold emptyWrapper_def get_changes)
  next
    case (Inr res)
    with ex assms(1) show ?thesis by (simp add: wrapper_unfold emptyWrapper_def get_changes)
  qed
qed

theorem unsupported_protocol_witness:
  "resolvedProtocol plainEnvironment (grpcConfig\<lparr>exporterTracesProtocol := ''http/1.1''\<rparr>)
     = ''http/1.1''
   \<and> fst (snd (newOpenTelemetryWrapper plainEnvironment [] ''tracecontext,baggage''
                 ''my-tracer'' ''my-span''
                 (grpcConfig\<lparr>exporterTracesProtocol := ''http/1.1''\<rparr>)
                 defaultTracerProviderCache))
       = Some (Errorf ''creating trace exporter error: ''
                 (Errorf [] ErrNonSupportedTracesProtocol '': tracesProtocol http/1.1'') [])
   \<and> snd (snd (newOpenTelemetryWrapper plainEnvironment [] ''tracecontext,baggage''
                 ''my-tracer'' ''my-span''
                 (grpcConfig\<lparr>exporterTracesProtocol := ''http/1.1''\<rparr>)
                 defaultTracerProviderCache))
       = defaultTracerProviderCache
   \<and> fst (snd (newOpenTelemetryWrapper resourceFailsEnvironment [] ''tracecontext,baggage''
                 ''my-tracer'' ''my-span''
                 (grpcConfig\<lparr>exporterTracesProtocol := ''http/1.1''\<rparr>)
                 defaultTracerProviderCache))
       = Some (Errorf ''creating resource error: '' (External ''detecting resource failed'') [])
   \<and> snd (snd (newOpenTelemetryWrapper resourceFailsEnvironment [] ''tracecontext,baggage''
                 ''my-tracer'' ''my-span''
                 (grpcConfig\<lparr>exporterTracesProtocol := ''http/1.1''\<rparr>)
                 defaultTracerProviderCache))
       = defaultTracerProviderCache"
proof -
  let ?cfg = "grpcConfig\<lparr>exporterTracesProtocol := ''http/1.1''\<rparr>"
  have rp: "resolvedProtocol plainEnvironment ?cfg = ''http/1.1''"
    by (simp add: resolvedProtocol_def grpcConfig_def)
  have h1: "resolvedProtocol plainEnvironment ?cfg \<noteq> []" by (simp add: rp)
  have h2: "resolvedProtocol plainEnvironment ?cfg \<noteq> ''grpc''" by (simp add: rp)
  have r: "\<exists>res. newResource plainEnvironment (serviceNameOrDefault []) webEngineName
                   (CaddyVersion plainEnvironment) = Inr res"
    by (simp add: plain_resource)
  have rp': "resolvedProtocol resourceFailsEnvironment ?cfg = ''http/1.1''"
    by (simp add: resolvedProtocol_def grpcConfig_def)
  have h1': "resolvedProtocol resourceFailsEnvironment ?cfg \<noteq> []" by (simp add: rp')
  have h2': "resolvedProtocol resourceFailsEnvironment ?cfg \<noteq> ''grpc''" by (simp add: rp')
  have r': "newResource resourceFailsEnvironment (serviceNameOrDefault []) webEngineName
              (CaddyVersion resourceFailsEnvironment)
            = Inl (External ''detecting resource failed'')"
    by (simp add: newResource_def resourceFailsEnvironment_def)
  note ok = unsupported_protocol[OF h1 h2, of "[]" "''tracecontext,baggage''" "''my-tracer''"
      "''my-span''" defaultTracerProviderCache]
  note bad = unsupported_protocol[OF h1' h2', of "[]" "''tracecontext,baggage''"
      "''my-tracer''" "''my-span''" defaultTracerProviderCache]
  from ok r have a: "fst (snd (newOpenTelemetryWrapper plainEnvironment []
        ''tracecontext,baggage'' ''my-tracer'' ''my-span'' ?cfg defaultTracerProviderCache))
      = Some (Errorf ''creating trace exporter error: ''
                (Errorf [] ErrNonSupportedTracesProtocol
                   ('': tracesProtocol '' @ resolvedProtocol plainEnvironment ?cfg)) [])"
    by blast
  from ok have b: "snd (snd (newOpenTelemetryWrapper plainEnvironment []
        ''tracecontext,baggage'' ''my-tracer'' ''my-span'' ?cfg defaultTracerProviderCache))
      = defaultTracerProviderCache"
    by blast
  from bad r' have c: "fst (snd (newOpenTelemetryWrapper resourceFailsEnvironment []
        ''tracecontext,baggage'' ''my-tracer'' ''my-span'' ?cfg defaultTracerProviderCache))
      = Some (Errorf ''creating resource error: '' (External ''detecting resource failed'') [])"
    by blast
  from bad have d: "snd (snd (newOpenTelemetryWrapper resourceFailsEnvironment []
        ''tracecontext,baggage'' ''my-tracer'' ''my-span'' ?cfg defaultTracerProviderCache))
      = defaultTracerProviderCache"
    by blast
  from a rp have a': "fst (snd (newOpenTelemetryWrapper plainEnvironment []
        ''tracecontext,baggage'' ''my-tracer'' ''my-span'' ?cfg defaultTracerProviderCache))
      = Some (Errorf ''creating trace exporter error: ''
                (Errorf [] ErrNonSupportedTracesProtocol '': tracesProtocol http/1.1'') [])"
    by simp
  from rp a' b c d show ?thesis by blast
qed

text \<open>
  C10 (an empty service name is replaced by \<^verbatim>\<open>caddyService\<close> and an empty span name
  by \<^verbatim>\<open>handler\<close> before anything else is done, so the defaulted service name is also
  the one in the fingerprint and in the resource). Setup with an empty service name is
  setup with \<^verbatim>\<open>caddyService\<close>, and setup with an empty span name is setup with
  \<^verbatim>\<open>handler\<close>: the results, wrapper, error and cache, are equal. The wrapper's span
  name is \<^verbatim>\<open>handler\<close> on every path, and when setup succeeds the key is built from
  \<^verbatim>\<open>caddyService\<close> and a provider allocated for it carries the resource made for
  \<^verbatim>\<open>caddyService\<close>.
\<close>

theorem defaults_applied_first:
  "newOpenTelemetryWrapper env [] props tracerName span cfg t
     = newOpenTelemetryWrapper env ''caddyService'' props tracerName span cfg t
   \<and> newOpenTelemetryWrapper env serviceName props tracerName [] cfg t
     = newOpenTelemetryWrapper env serviceName props tracerName ''handler'' cfg t
   \<and> spanName (fst (newOpenTelemetryWrapper env serviceName props tracerName [] cfg t))
     = ''handler''
   \<and> (fst (snd (newOpenTelemetryWrapper env [] props tracerName span cfg t)) = None \<longrightarrow>
        tracerProviderKey (fst (newOpenTelemetryWrapper env [] props tracerName span cfg t))
          = tracerProviderKeyOf ''caddyService'' tracerName (resolvedConfig env cfg)
        \<and> (\<exists>res traceExporter.
              newResource env ''caddyService'' ''Caddy'' (CaddyVersion env) = Inr res
              \<and> getTracerExporter env (resolvedConfig env cfg) = Inr traceExporter
              \<and> (tracerProviders t
                    (tracerProviderKeyOf ''caddyService'' tracerName (resolvedConfig env cfg))
                    = None \<longrightarrow>
                  heap (snd (snd (newOpenTelemetryWrapper env [] props tracerName span cfg t)))
                    = heap t @ [[WithBatcher traceExporter, WithResource res]])))"
proof (intro conjI impI)
  show "newOpenTelemetryWrapper env [] props tracerName span cfg t
     = newOpenTelemetryWrapper env ''caddyService'' props tracerName span cfg t"
    by (simp add: newOpenTelemetryWrapper_def defaultServiceName_def)
  show "newOpenTelemetryWrapper env serviceName props tracerName [] cfg t
     = newOpenTelemetryWrapper env serviceName props tracerName ''handler'' cfg t"
    by (simp add: newOpenTelemetryWrapper_def defaultSpanName_def)
  show "spanName (fst (newOpenTelemetryWrapper env serviceName props tracerName [] cfg t))
     = ''handler''"
    by (simp add: wrapper_unfold emptyWrapper_def defaultSpanName_def split: sum.split)
next
  assume ok: "fst (snd (newOpenTelemetryWrapper env [] props tracerName span cfg t)) = None"
  have sn: "serviceNameOrDefault [] = ''caddyService''"
    by (simp add: serviceNameOrDefault_def defaultServiceName_def)
  from ok obtain res where res:
    "newResource env ''caddyService'' webEngineName (CaddyVersion env) = Inr res"
    by (cases "newResource env ''caddyService'' webEngineName (CaddyVersion env)")
       (simp_all add: wrapper_unfold sn)
  from ok res have np: "resolvedProtocol env cfg \<noteq> []"
    by (auto simp: wrapper_unfold sn)
  from ok res np obtain traceExporter where ex:
    "getTracerExporter env (resolvedConfig env cfg) = Inr traceExporter"
    by (cases "getTracerExporter env (resolvedConfig env cfg)")
       (simp_all add: wrapper_unfold sn)
  from ok res np ex have pp: "resolvedPropagators env props \<noteq> []"
    by (auto simp: wrapper_unfold sn)
  from res np ex pp
  show "tracerProviderKey (fst (newOpenTelemetryWrapper env [] props tracerName span cfg t))
          = tracerProviderKeyOf ''caddyService'' tracerName (resolvedConfig env cfg)"
    by (simp add: wrapper_unfold sn)
  have "tracerProviders t
          (tracerProviderKeyOf ''caddyService'' tracerName (resolvedConfig env cfg)) = None
        \<Longrightarrow> heap (snd (snd (newOpenTelemetryWrapper env [] props tracerName span cfg t)))
              = heap t @ [[WithBatcher traceExporter, WithResource res]]"
    using res np ex pp by (simp add: wrapper_unfold sn get_heap)
  with res ex
  show "\<exists>res traceExporter.
              newResource env ''caddyService'' ''Caddy'' (CaddyVersion env) = Inr res
              \<and> getTracerExporter env (resolvedConfig env cfg) = Inr traceExporter
              \<and> (tracerProviders t
                    (tracerProviderKeyOf ''caddyService'' tracerName (resolvedConfig env cfg))
                    = None \<longrightarrow>
                  heap (snd (snd (newOpenTelemetryWrapper env [] props tracerName span cfg t)))
                    = heap t @ [[WithBatcher traceExporter, WithResource res]])"
    by (auto simp: webEngineName_def)
qed

theorem defaults_applied_first_witness:
  "fst (snd (newOpenTelemetryWrapper plainEnvironment [] ''tracecontext'' ''my-tracer'' []
               grpcConfig defaultTracerProviderCache)) = None
   \<and> tracerProviderKey
       (fst (newOpenTelemetryWrapper plainEnvironment [] ''tracecontext'' ''my-tracer'' []
               grpcConfig defaultTracerProviderCache))
       = ''caddyService-my-tracer-grpc-true--''
   \<and> spanName
       (fst (newOpenTelemetryWrapper plainEnvironment [] ''tracecontext'' ''my-tracer'' []
               grpcConfig defaultTracerProviderCache))
       = ''handler''
   \<and> heap (snd (snd (newOpenTelemetryWrapper plainEnvironment [] ''tracecontext''
                       ''my-tracer'' [] grpcConfig defaultTracerProviderCache)))
       = [[WithBatcher (Exporter [WithInsecure]),
           WithResource [(''service.name'', ''caddyService''), (''webengine.name'', ''Caddy''),
                         (''webengine.description'', ''v2'')]]]"
proof -
  have ok: "fst (snd (newOpenTelemetryWrapper plainEnvironment [] ''tracecontext''
                        ''my-tracer'' [] grpcConfig defaultTracerProviderCache)) = None"
    by code_simp
  have k: "tracerProviderKeyOf ''caddyService'' ''my-tracer''
             (resolvedConfig plainEnvironment grpcConfig)
           = ''caddyService-my-tracer-grpc-true--''"
    by code_simp
  have h: "heap (snd (snd (newOpenTelemetryWrapper plainEnvironment [] ''tracecontext''
                       ''my-tracer'' [] grpcConfig defaultTracerProviderCache)))
       = [[WithBatcher (Exporter [WithInsecure]),
           WithResource [(''service.name'', ''caddyService''), (''webengine.name'', ''Caddy''),
                         (''webengine.description'', ''v2'')]]]"
    by code_simp
  note th = defaults_applied_first[of plainEnvironment "''tracecontext''" "''my-tracer''" "[]"
      grpcConfig defaultTracerProviderCache "[]"]
  from th have s: "spanName
       (fst (newOpenTelemetryWrapper plainEnvironment [] ''tracecontext'' ''my-tracer'' []
               grpcConfig defaultTracerProviderCache)) = ''handler''"
    by blast
  from th ok have "tracerProviderKey
       (fst (newOpenTelemetryWrapper plainEnvironment [] ''tracecontext'' ''my-tracer'' []
               grpcConfig defaultTracerProviderCache))
       = tracerProviderKeyOf ''caddyService'' ''my-tracer''
           (resolvedConfig plainEnvironment grpcConfig)"
    by blast
  with k have kk: "tracerProviderKey
       (fst (newOpenTelemetryWrapper plainEnvironment [] ''tracecontext'' ''my-tracer'' []
               grpcConfig defaultTracerProviderCache))
       = ''caddyService-my-tracer-grpc-true--''"
    by (simp only:)
  from ok kk s h show ?thesis by blast
qed

end
